theory Spec2Isabelle
  imports Complex_Main "HOL-Library.Log_Nat"
begin

section \<open>Image to MIDI converter: the colour-to-note core of main.py\<close>

text \<open>
  The embedding covers \<open>hsv_to_midi_params\<close>, \<open>colors_are_close\<close> and
  \<open>create_midi_from_colors\<close> of \<open>src/main.py\<close>.

  Numbers. A Python \<open>float\<close> is an IEEE 754 double; a finite double is modelled as the
  \<open>real\<close> it denotes. In the mapper and in the similarity predicate every arithmetic
  operation of the source is followed by the rounding of its exact result to the nearest
  double, ties to the even mantissa (\<open>round_double\<close>), as Python does it. Results are
  taken to stay below \<open>2^1024\<close>, where a double would overflow; for hue below 360 and
  saturation and value up to 100 they stay below 120. The beat clock of the sequencer
  only ever adds \<open>0.5\<close> to a multiple of \<open>0.5\<close>, which is exact in doubles far beyond the
  16384 samples of a 128 x 128 grid, so beat times and durations are added without
  rounding. Python's \<open>int\<close> values (pitch, velocity, pixel coordinates, tempo) are
  \<open>int\<close>; an \<open>int\<close> operand of a float operation is converted exactly.
\<close>

subsection \<open>Data\<close>

type_synonym hsv = "real \<times> real \<times> real"

text \<open>An element of \<open>color_data\<close>: the tuple \<open>(x, y, h, s, v)\<close> appended at line 81.\<close>

type_synonym sample = "int \<times> int \<times> real \<times> real \<times> real"

subsection \<open>Double precision arithmetic\<close>

text \<open>Rounding to the nearest integer, a tie going to the even one.\<close>

definition round_half_even :: "real \<Rightarrow> int" where
  "round_half_even q =
     (let f = \<lfloor>q\<rfloor>; r = q - of_int f
      in if r < 1 / 2 then f else if 1 / 2 < r then f + 1 else if even f then f else f + 1)"

text \<open>For \<open>y > 0\<close>, the exponent \<open>e\<close> with \<open>2^e \<le> y < 2^(e+1)\<close>.\<close>

definition binade :: "real \<Rightarrow> int" where
  "binade y = (if 1 \<le> y then bitlen \<lfloor>y\<rfloor> - 1 else - bitlen (\<lceil>1 / y\<rceil> - 1))"

text \<open>
  The double nearest to \<open>x\<close>: a mantissa of 53 bits, the exponent not below that of the
  subnormal numbers, so that the spacing of doubles around \<open>x\<close> is \<open>2^(e - 52)\<close>.
\<close>

definition round_double :: "real \<Rightarrow> real" where
  "round_double x =
     (if x = 0 then 0
      else let e = max (binade \<bar>x\<bar>) (- 1022);
               u = 2 powi (e - 52)
           in sgn x * (of_int (round_half_even (\<bar>x\<bar> / u)) * u))"

text \<open>Python's \<open>+\<close>, \<open>-\<close>, \<open>*\<close> and \<open>/\<close> on floats.\<close>

definition fl_add :: "real \<Rightarrow> real \<Rightarrow> real" where
  "fl_add x y = round_double (x + y)"

definition fl_sub :: "real \<Rightarrow> real \<Rightarrow> real" where
  "fl_sub x y = round_double (x - y)"

definition fl_mul :: "real \<Rightarrow> real \<Rightarrow> real" where
  "fl_mul x y = round_double (x * y)"

definition fl_div :: "real \<Rightarrow> real \<Rightarrow> real" where
  "fl_div x y = round_double (x / y)"

subsection \<open>The mapper (lines 86-106)\<close>

text \<open>Python's \<open>int(x)\<close> on a float truncates towards zero.\<close>

definition py_int :: "real \<Rightarrow> int" where
  "py_int x = (if 0 \<le> x then \<lfloor>x\<rfloor> else \<lceil>x\<rceil>)"

definition hsv_to_midi_params :: "real \<Rightarrow> real \<Rightarrow> real \<Rightarrow> int \<times> int" where
  "hsv_to_midi_params h s v =
     (let base_pitch = fl_mul (fl_div h 360) 12;
          octave_shift = fl_mul (fl_div v 100) 7;
          pitch = py_int (fl_add (fl_add 21 (fl_mul octave_shift 12)) base_pitch);
          pitch = max 21 (min 108 pitch);
          velocity = py_int (fl_add 20 (fl_mul (fl_div s 100) 107));
          velocity = max 20 (min 127 velocity)
      in (pitch, velocity))"

subsection \<open>The similarity predicate (lines 109-121)\<close>

text \<open>Lines 115-117: the hue difference with its wrap-around.\<close>

definition hue_diff :: "real \<Rightarrow> real \<Rightarrow> real" where
  "hue_diff h1 h2 =
     (let hue_diff = \<bar>fl_sub h1 h2\<bar>
      in if hue_diff > 180 then fl_sub 360 hue_diff else hue_diff)"

definition colors_are_close :: "hsv \<Rightarrow> hsv \<Rightarrow> real \<Rightarrow> real \<Rightarrow> real \<Rightarrow> bool" where
  "colors_are_close hsv1 hsv2 threshold_h threshold_s threshold_v =
     (case hsv1 of (h1, s1, v1) \<Rightarrow>
      case hsv2 of (h2, s2, v2) \<Rightarrow>
        hue_diff h1 h2 \<le> threshold_h \<and>
        \<bar>fl_sub s1 s2\<bar> \<le> threshold_s \<and>
        \<bar>fl_sub v1 v2\<bar> \<le> threshold_v)"

subsection \<open>The MIDI collaborator\<close>

text \<open>
  \<open>MIDIFile\<close> belongs to the external MIDIUtil package. The sequencer only calls
  \<open>addTrackName\<close>, \<open>addTempo\<close>, \<open>addNote\<close> and \<open>writeFile\<close> on it, so the object is
  modelled as the ordered log of the calls it has received. A note is the argument tuple
  of \<open>addNote(track, channel, pitch, time, duration, volume)\<close>. Its volume is whatever
  \<open>current_velocity\<close> holds, which in the source is \<open>None\<close> or an integer.
\<close>

record note_event =
  note_track :: nat
  note_channel :: nat
  note_pitch :: int
  note_time :: real
  note_duration :: real
  note_volume :: "int option"

record MIDIFile =
  num_tracks :: nat
  track_names :: "(nat \<times> real \<times> string) list"
  tempos :: "(nat \<times> real \<times> int) list"
  added_notes :: "note_event list"

definition new_MIDIFile :: "nat \<Rightarrow> MIDIFile" where
  "new_MIDIFile n = \<lparr>num_tracks = n, track_names = [], tempos = [], added_notes = []\<rparr>"

definition addTrackName :: "MIDIFile \<Rightarrow> nat \<Rightarrow> real \<Rightarrow> string \<Rightarrow> MIDIFile" where
  "addTrackName m trk t name = m\<lparr>track_names := track_names m @ [(trk, t, name)]\<rparr>"

definition addTempo :: "MIDIFile \<Rightarrow> nat \<Rightarrow> real \<Rightarrow> int \<Rightarrow> MIDIFile" where
  "addTempo m trk t bpm = m\<lparr>tempos := tempos m @ [(trk, t, bpm)]\<rparr>"

definition addNote ::
  "MIDIFile \<Rightarrow> nat \<Rightarrow> nat \<Rightarrow> int \<Rightarrow> real \<Rightarrow> real \<Rightarrow> int option \<Rightarrow> MIDIFile" where
  "addNote m trk ch p t d vol =
     m\<lparr>added_notes := added_notes m @
        [\<lparr>note_track = trk, note_channel = ch, note_pitch = p, note_time = t,
          note_duration = d, note_volume = vol\<rparr>]\<rparr>"

subsection \<open>The sequencer (lines 124-193)\<close>

text \<open>The local variables of \<open>create_midi_from_colors\<close> that the loop reads and writes.\<close>

record seq_state =
  midi :: MIDIFile
  current_time :: real
  prev_hsv :: "hsv option"
  note_start_time :: real
  current_pitch :: "int option"
  current_velocity :: "int option"
  accumulated_duration :: real

definition track :: nat where "track = 0"

definition channel :: nat where "channel = 0"

definition eighth_note :: real where "eighth_note = 1 / 2"

text \<open>Lines 135-149: the state when the loop is entered.\<close>

definition init_state :: "int \<Rightarrow> seq_state" where
  "init_state bpm =
     \<lparr>midi = addTempo (addTrackName (new_MIDIFile 1) track 0 ''Image Colors'') track 0 bpm,
      current_time = 0,
      prev_hsv = None,
      note_start_time = 0,
      current_pitch = None,
      current_velocity = None,
      accumulated_duration = 0\<rparr>"

text \<open>
  Lines 163-165 and 181-183: write the in-progress note if there is one.
\<close>

definition write_note :: "seq_state \<Rightarrow> seq_state" where
  "write_note st =
     (case current_pitch st of
        None \<Rightarrow> st
      | Some p \<Rightarrow>
          st\<lparr>midi := addNote (midi st) track channel p (note_start_time st)
                       (accumulated_duration st) (current_velocity st)\<rparr>)"

text \<open>
  Lines 155-174: one iteration of the loop. \<open>prev_hsv\<close> is \<open>None\<close> or a tuple of three
  elements, and such a tuple is always true in a Python condition, so \<open>if prev_hsv and
  ...\<close> tests that \<open>prev_hsv\<close> is set. The similarity test is called with its default
  thresholds 15, 15, 15. The progress message of lines 177-178 only prints.
\<close>

definition loop_body :: "seq_state \<Rightarrow> sample \<Rightarrow> seq_state" where
  "loop_body st smp =
     (case smp of (x, y, h, s, v) \<Rightarrow>
        case hsv_to_midi_params h s v of (pitch, velocity) \<Rightarrow>
          let st1 =
            (if (case prev_hsv st of None \<Rightarrow> False
                 | Some p \<Rightarrow> colors_are_close (h, s, v) p 15 15 15)
             then st\<lparr>accumulated_duration := accumulated_duration st + eighth_note\<rparr>
             else (write_note st)
                    \<lparr>note_start_time := current_time st,
                     current_pitch := Some pitch,
                     current_velocity := Some velocity,
                     accumulated_duration := eighth_note\<rparr>)
          in st1\<lparr>prev_hsv := Some (h, s, v),
                 current_time := current_time st1 + eighth_note\<rparr>)"

fun color_loop :: "seq_state \<Rightarrow> sample list \<Rightarrow> seq_state" where
  "color_loop st [] = st"
| "color_loop st (c # cs) = color_loop (loop_body st c) cs"

text \<open>
  Lines 131-183: the MIDI object as it stands before it is written to disk; \<open>None\<close> is
  the early return of line 133, where no MIDI object exists.
\<close>

definition sequence_colors :: "sample list \<Rightarrow> int \<Rightarrow> MIDIFile option" where
  "sequence_colors color_data bpm =
     (if color_data = [] then None
      else Some (midi (write_note (color_loop (init_state bpm) color_data))))"

text \<open>
  Lines 185-193: the file is written, or the process exits with status 1 when opening
  or writing fails. Whether the path can be written is the environment's choice, taken
  as the parameter \<open>writable\<close>.
\<close>

datatype outcome =
  No_color_data
| Saved string MIDIFile
| Exit_1

definition create_midi_from_colors ::
  "(string \<Rightarrow> bool) \<Rightarrow> sample list \<Rightarrow> string \<Rightarrow> int \<Rightarrow> outcome" where
  "create_midi_from_colors writable color_data output_path bpm =
     (case sequence_colors color_data bpm of
        None \<Rightarrow> No_color_data
      | Some m \<Rightarrow> if writable output_path then Saved output_path m else Exit_1)"

text \<open>The note events the sequencer emits: the \<open>addNote\<close> calls, in order.\<close>

definition note_events :: "sample list \<Rightarrow> int \<Rightarrow> note_event list" where
  "note_events color_data bpm =
     (case sequence_colors color_data bpm of None \<Rightarrow> [] | Some m \<Rightarrow> added_notes m)"

subsection \<open>The mapper as the specification words it\<close>

text \<open>
  Section 4.2 of the specification: pitch is \<open>21 + octaveShift*12 + basePitch\<close> with
  \<open>basePitch = hue/360 * 12\<close> and \<open>octaveShift = value/100 * 7\<close>, truncated and clamped
  to \<open>[21,108]\<close>; velocity is \<open>20 + saturation/100 * 107\<close>, truncated and clamped to
  \<open>[20,127]\<close>. The formulas are taken as they are written, in exact arithmetic.
\<close>

definition clamp_to :: "int \<Rightarrow> int \<Rightarrow> int \<Rightarrow> int" where
  "clamp_to lo hi n = (if n < lo then lo else if hi < n then hi else n)"

definition spec_pitch :: "real \<Rightarrow> real \<Rightarrow> int" where
  "spec_pitch hue val = clamp_to 21 108 (py_int (21 + (val / 100 * 7) * 12 + (hue / 360 * 12)))"

definition spec_velocity :: "real \<Rightarrow> int" where
  "spec_velocity sat = clamp_to 20 127 (py_int (20 + sat / 100 * 107))"

subsection \<open>Notions used in the proofs about the sequencer\<close>

text \<open>
  \<open>tiles t ns e\<close>: the notes \<open>ns\<close>, in order, cover the beats from \<open>t\<close> to \<open>e\<close> with
  neither gap nor overlap.
\<close>

fun tiles :: "real \<Rightarrow> note_event list \<Rightarrow> real \<Rightarrow> bool" where
  "tiles t [] e = (t = e)"
| "tiles t (n # ns) e = (note_time n = t \<and> tiles (t + note_duration n) ns e)"

text \<open>A duration of one or more whole steps.\<close>

definition whole_steps :: "real \<Rightarrow> bool" where
  "whole_steps d = (\<exists>k::nat. 1 \<le> k \<and> d = of_nat k * eighth_note)"

text \<open>
  The loop invariant: the in-progress note ends at the beat clock; before the first
  sample nothing is in progress and no previous colour is set, afterwards the note in
  progress lasts whole steps; the notes written so far cover the beats from 0 to the
  start of the note in progress, each lasting whole steps.
\<close>

definition seq_inv :: "seq_state \<Rightarrow> bool" where
  "seq_inv st =
     (note_start_time st + accumulated_duration st = current_time st
      \<and> (case current_pitch st of
            None \<Rightarrow> prev_hsv st = None \<and> accumulated_duration st = 0
          | Some p \<Rightarrow> whole_steps (accumulated_duration st))
      \<and> tiles 0 (added_notes (midi st)) (note_start_time st)
      \<and> (\<forall>n \<in> set (added_notes (midi st)). whole_steps (note_duration n)))"

text \<open>
  \<open>hue_far c d\<close>: the hue difference that the loop computes when \<open>d\<close> is the current
  sample and \<open>c\<close> the previous one exceeds the default threshold.
\<close>

definition hue_far :: "sample \<Rightarrow> sample \<Rightarrow> bool" where
  "hue_far c d =
     (case c of (x, y, h, s, v) \<Rightarrow> case d of (x', y', h', s', v') \<Rightarrow> 15 < hue_diff h' h)"

section \<open>Properties of the mapper and of the similarity predicate\<close>

lemma clamp_to_max_min: "lo \<le> hi \<Longrightarrow> clamp_to lo hi n = max lo (min hi n)"
  by (simp add: clamp_to_def max_def min_def)

lemma round_double_minus: "round_double (- x) = - round_double x"
  by (simp add: round_double_def Let_def sgn_minus)

text \<open>Rounding at work: a tie goes to the even mantissa, and a tenth is not a double.\<close>

lemma round_double_examples:
  "round_double (15 + 1 / 2 ^ 50) = 15"
  "round_double (15 + 3 / 2 ^ 50) = 15 + 1 / 2 ^ 48"
  "round_double (1 / 10) = 3602879701896397 / 36028797018963968"
  "round_double (- (1 / 10)) = - (3602879701896397 / 36028797018963968)"
  "round_double (1 / 2) = 1 / 2"
  by code_simp+

lemma py_int_examples:
  "py_int (7 / 2) = 3"
  "py_int (- (7 / 2)) = - 3"
  by (simp_all add: py_int_def)

lemma hsv_to_midi_params_examples:
  "hsv_to_midi_params 10 50 50 = (63, 73)"
  "hsv_to_midi_params 12 52 51 = (64, 75)"
  "hsv_to_midi_params 200 50 50 = (69, 73)"
  by code_simp+

lemma colors_are_close_examples:
  "colors_are_close (12, 52, 51) (10, 50, 50) 15 15 15"
  "\<not> colors_are_close (200, 50, 50) (12, 52, 51) 15 15 15"
  by code_simp+

text \<open>
  C4. For hue in \<open>[0,360)\<close> and saturation and value in \<open>[0,100]\<close> the mapper returns a
  pitch in \<open>[21,108]\<close> and a velocity in \<open>[20,127]\<close>. The model of the mapper is a total
  function, so it returns on every such input: there is no raising branch.
\<close>

theorem hsv_to_midi_params_range:
  assumes "0 \<le> h" and "h < 360" and "0 \<le> s" and "s \<le> 100" and "0 \<le> v" and "v \<le> 100"
  shows "21 \<le> fst (hsv_to_midi_params h s v) \<and> fst (hsv_to_midi_params h s v) \<le> 108
       \<and> 20 \<le> snd (hsv_to_midi_params h s v) \<and> snd (hsv_to_midi_params h s v) \<le> 127"
  by (simp add: hsv_to_midi_params_def Let_def)

theorem hsv_to_midi_params_range_witness:
  "(0::real) \<le> 200 \<and> (200::real) < 360 \<and> (0::real) \<le> 50 \<and> (50::real) \<le> 100
   \<and> hsv_to_midi_params 200 50 50 = (69, 73)
   \<and> 21 \<le> fst (hsv_to_midi_params 200 50 50) \<and> fst (hsv_to_midi_params 200 50 50) \<le> 108
   \<and> 20 \<le> snd (hsv_to_midi_params 200 50 50) \<and> snd (hsv_to_midi_params 200 50 50) \<le> 127"
  using hsv_to_midi_params_range [of 200 50 50]
  by (simp add: hsv_to_midi_params_examples)

text \<open>
  C5, as stated: for hue in \<open>[0,360)\<close> and saturation and value in \<open>[0,100]\<close> the pitch is
  the truncation of \<open>21 + (value/100 * 7)*12 + (hue/360 * 12)\<close> clamped to \<open>[21,108]\<close>, and
  the velocity is the truncation of \<open>20 + saturation/100 * 107\<close> clamped to \<open>[20,127]\<close>.
  This fails where the exact value lies just below an integer and the rounded sum reaches
  it. The colour with hue 240, saturation 100 and value \<open>33.33333333333333\<close> (the double
  \<open>2345624805922133 / 2^46\<close>, which is what the sampler produces for the pixel
  \<open>(0, 0, 85)\<close>) is mapped to pitch 57: \<open>21 + 27.999999999999996\<close> rounds to 49.
  The exact formula gives \<open>56.99999999999999...\<close> and so 56.
\<close>

theorem hsv_to_midi_params_formula_counterexample:
  "(0::real) \<le> 240 \<and> (240::real) < 360 \<and> (0::real) \<le> 100 \<and> (100::real) \<le> 100
   \<and> (0::real) \<le> 2345624805922133 / 70368744177664
   \<and> (2345624805922133 / 70368744177664 :: real) \<le> 100
   \<and> hsv_to_midi_params 240 100 (2345624805922133 / 70368744177664) = (57, 127)
   \<and> spec_pitch 240 (2345624805922133 / 70368744177664) = 56
   \<and> hsv_to_midi_params 240 100 (2345624805922133 / 70368744177664)
       \<noteq> (spec_pitch 240 (2345624805922133 / 70368744177664), spec_velocity 100)"
proof -
  have code: "hsv_to_midi_params 240 100 (2345624805922133 / 70368744177664) = (57, 127)"
    by code_simp
  have spec: "spec_pitch 240 (2345624805922133 / 70368744177664) = 56"
    by (simp add: spec_pitch_def clamp_to_def py_int_def)
  from code spec show ?thesis by simp
qed

text \<open>
  C5, amended: for hue in \<open>[0,360)\<close> and saturation and value in \<open>[0,100]\<close> the pitch is
  the truncation of \<open>21 + (value/100 * 7)*12 + (hue/360 * 12)\<close> clamped to \<open>[21,108]\<close>, and
  the velocity is the truncation of \<open>20 + saturation/100 * 107\<close> clamped to \<open>[20,127]\<close>,
  where the result of each division, multiplication and addition, taken in this order,
  is rounded to the nearest double before the next operation uses it.
\<close>

theorem hsv_to_midi_params_rounded_formula:
  assumes "0 \<le> h" and "h < 360" and "0 \<le> s" and "s \<le> 100" and "0 \<le> v" and "v \<le> 100"
  shows "hsv_to_midi_params h s v =
     (clamp_to 21 108
        (py_int (round_double
           (round_double (21 + round_double (round_double (round_double (v / 100) * 7) * 12))
            + round_double (round_double (h / 360) * 12)))),
      clamp_to 20 127
        (py_int (round_double (20 + round_double (round_double (s / 100) * 107)))))"
  by (simp add: hsv_to_midi_params_def clamp_to_max_min
      fl_add_def fl_mul_def fl_div_def)

theorem hsv_to_midi_params_rounded_formula_witness:
  "(0::real) \<le> 240 \<and> (240::real) < 360 \<and> (0::real) \<le> 100 \<and> (100::real) \<le> 100
   \<and> (0::real) \<le> 2345624805922133 / 70368744177664
   \<and> (2345624805922133 / 70368744177664 :: real) \<le> 100
   \<and> hsv_to_midi_params 240 100 (2345624805922133 / 70368744177664) =
       (clamp_to 21 108
          (py_int (round_double
             (round_double (21 + round_double (round_double
                (round_double (2345624805922133 / 70368744177664 / 100) * 7) * 12))
              + round_double (round_double (240 / 360) * 12)))),
        clamp_to 20 127
          (py_int (round_double (20 + round_double (round_double (100 / 100) * 107)))))
   \<and> round_double (2345624805922133 / 70368744177664 / 100)
       = 1501199875790165 / 4503599627370496
   \<and> round_double (round_double
        (round_double (2345624805922133 / 70368744177664 / 100) * 7) * 12)
       = 7881299347898367 / 281474976710656
   \<and> round_double (21 + 7881299347898367 / 281474976710656) = 49
   \<and> round_double (round_double (240 / 360) * 12) = 8
   \<and> hsv_to_midi_params 240 100 (2345624805922133 / 70368744177664) = (57, 127)"
proof -
  have steps:
    "round_double (2345624805922133 / 70368744177664 / 100)
       = 1501199875790165 / 4503599627370496"
    "round_double (round_double
        (round_double (2345624805922133 / 70368744177664 / 100) * 7) * 12)
       = 7881299347898367 / 281474976710656"
    "round_double (21 + 7881299347898367 / 281474976710656) = 49"
    "round_double (round_double (240 / 360) * 12) = 8"
    "hsv_to_midi_params 240 100 (2345624805922133 / 70368744177664) = (57, 127)"
    by code_simp+
  have "hsv_to_midi_params 240 100 (2345624805922133 / 70368744177664) =
       (clamp_to 21 108
          (py_int (round_double
             (round_double (21 + round_double (round_double
                (round_double (2345624805922133 / 70368744177664 / 100) * 7) * 12))
              + round_double (round_double (240 / 360) * 12)))),
        clamp_to 20 127
          (py_int (round_double (20 + round_double (round_double (100 / 100) * 107)))))"
    by (rule hsv_to_midi_params_rounded_formula) simp_all
  with steps show ?thesis by simp
qed

text \<open>
  C6, as stated: \<open>colors_are_close\<close> is true exactly when the hue difference, with
  \<open>|h1-h2|\<close> replaced by \<open>360 - |h1-h2|\<close> when it exceeds 180, is at most the hue threshold
  and the saturation and value differences are at most theirs. This fails where a
  difference lies just above the threshold and is rounded onto it. The hues 20 and
  \<open>4.999999999999999\<close> (the double \<open>5629499534213119 / 2^50\<close>) differ by
  \<open>15 + 2^-50\<close>, which is more than 15, but the source computes the difference 15 and
  answers true.
\<close>

theorem colors_are_close_iff_counterexample:
  "colors_are_close (20, 50, 50) (5629499534213119 / 1125899906842624, 50, 50) 15 15 15
   \<and> \<not> ((if \<bar>20 - 5629499534213119 / 1125899906842624\<bar> > (180 :: real)
          then 360 - \<bar>20 - 5629499534213119 / 1125899906842624\<bar>
          else \<bar>20 - 5629499534213119 / 1125899906842624\<bar>) \<le> (15 :: real)
        \<and> \<bar>50 - 50\<bar> \<le> (15 :: real) \<and> \<bar>50 - 50\<bar> \<le> (15 :: real))"
proof -
  have "colors_are_close (20, 50, 50) (5629499534213119 / 1125899906842624, 50, 50) 15 15 15"
    by code_simp
  then show ?thesis by simp
qed

text \<open>
  C6, amended: \<open>colors_are_close\<close> is true exactly when the hue difference, with
  \<open>|h1-h2|\<close> replaced by \<open>360 - |h1-h2|\<close> when it exceeds 180, is at most the hue threshold
  and the saturation and value differences are at most theirs, where every subtraction
  is rounded to the nearest double; and \<open>(359,50,50)\<close> and \<open>(1,50,50)\<close> are close under the
  thresholds 15/15/15.
\<close>

theorem colors_are_close_rounded_iff:
  "colors_are_close (h1, s1, v1) (h2, s2, v2) tH tS tV =
     ((if \<bar>round_double (h1 - h2)\<bar> > 180
       then round_double (360 - \<bar>round_double (h1 - h2)\<bar>)
       else \<bar>round_double (h1 - h2)\<bar>) \<le> tH
      \<and> \<bar>round_double (s1 - s2)\<bar> \<le> tS \<and> \<bar>round_double (v1 - v2)\<bar> \<le> tV)
   \<and> colors_are_close (359, 50, 50) (1, 50, 50) 15 15 15"
proof -
  have "colors_are_close (359, 50, 50) (1, 50, 50) 15 15 15"
    by code_simp
  then show ?thesis
    by (simp add: colors_are_close_def hue_diff_def Let_def fl_sub_def)
qed

text \<open>
  C7. \<open>colors_are_close\<close> is symmetric in its two colours, for any thresholds.
\<close>

theorem colors_are_close_sym:
  "colors_are_close a b tH tS tV = colors_are_close b a tH tS tV"
proof -
  have swap: "\<bar>fl_sub x y\<bar> = \<bar>fl_sub y x\<bar>" for x y
  proof -
    have "fl_sub y x = round_double (- (x - y))" by (simp add: fl_sub_def)
    then have "fl_sub y x = - fl_sub x y" by (simp only: round_double_minus fl_sub_def)
    then show ?thesis by simp
  qed
  obtain h1 s1 v1 where a: "a = (h1, s1, v1)" by (cases a)
  obtain h2 s2 v2 where b: "b = (h2, s2, v2)" by (cases b)
  have "hue_diff h1 h2 = hue_diff h2 h1"
    by (simp add: hue_diff_def Let_def swap [of h1 h2])
  then show ?thesis
    by (simp add: a b colors_are_close_def swap [of s1 s2] swap [of v1 v2])
qed

text \<open>
  C10. The pitch depends only on hue and value, the velocity only on saturation.
\<close>

theorem hsv_to_midi_params_independence:
  "fst (hsv_to_midi_params h s v) = fst (hsv_to_midi_params h s' v)
   \<and> snd (hsv_to_midi_params h s v) = snd (hsv_to_midi_params h' s v')"
  by (simp add: hsv_to_midi_params_def Let_def)

section \<open>The sequencer: what one iteration does, and the loop invariant\<close>

lemma write_note_fields:
  "current_time (write_note st) = current_time st"
  "prev_hsv (write_note st) = prev_hsv st"
  "note_start_time (write_note st) = note_start_time st"
  "current_pitch (write_note st) = current_pitch st"
  "current_velocity (write_note st) = current_velocity st"
  "accumulated_duration (write_note st) = accumulated_duration st"
  by (simp_all add: write_note_def split: option.splits)

lemma loop_body_extend:
  assumes "prev_hsv st = Some p" and "colors_are_close (h, s, v) p 15 15 15"
  shows "loop_body st (x, y, h, s, v) =
           st\<lparr>accumulated_duration := accumulated_duration st + eighth_note,
              prev_hsv := Some (h, s, v),
              current_time := current_time st + eighth_note\<rparr>"
  using assms by (simp add: loop_body_def split: prod.splits)

lemma loop_body_start:
  assumes "case prev_hsv st of None \<Rightarrow> True | Some p \<Rightarrow> \<not> colors_are_close (h, s, v) p 15 15 15"
  shows "loop_body st (x, y, h, s, v) =
           (write_note st)\<lparr>note_start_time := current_time st,
              current_pitch := Some (fst (hsv_to_midi_params h s v)),
              current_velocity := Some (snd (hsv_to_midi_params h s v)),
              accumulated_duration := eighth_note,
              prev_hsv := Some (h, s, v),
              current_time := current_time st + eighth_note\<rparr>"
proof (cases "prev_hsv st")
  case None
  then show ?thesis by (simp add: loop_body_def write_note_fields split: prod.splits)
next
  case (Some p)
  with assms show ?thesis by (simp add: loop_body_def write_note_fields split: prod.splits)
qed

lemma tiles_snoc:
  "tiles t ns e \<Longrightarrow> note_time n = e \<Longrightarrow> tiles t (ns @ [n]) (e + note_duration n)"
  by (induction ns arbitrary: t) auto

lemma whole_steps_first: "whole_steps eighth_note"
  unfolding whole_steps_def by (rule exI [of _ 1]) simp

lemma whole_steps_next: "whole_steps d \<Longrightarrow> whole_steps (d + eighth_note)"
  unfolding whole_steps_def
proof (elim exE conjE)
  fix k :: nat
  assume "1 \<le> k" and "d = of_nat k * eighth_note"
  then have "1 \<le> Suc k \<and> d + eighth_note = of_nat (Suc k) * eighth_note"
    by (simp add: algebra_simps)
  then show "\<exists>k::nat. 1 \<le> k \<and> d + eighth_note = of_nat k * eighth_note"
    by blast
qed

lemma write_note_inv:
  assumes "seq_inv st"
  shows "tiles 0 (added_notes (midi (write_note st))) (current_time st)"
    and "\<forall>n \<in> set (added_notes (midi (write_note st))). whole_steps (note_duration n)"
proof -
  show "tiles 0 (added_notes (midi (write_note st))) (current_time st)"
  proof (cases "current_pitch st")
    case None
    with assms have "note_start_time st = current_time st"
      and "tiles 0 (added_notes (midi st)) (note_start_time st)"
      by (simp_all add: seq_inv_def)
    with None show ?thesis by (simp add: write_note_def)
  next
    case (Some p)
    let ?n = "\<lparr>note_track = track, note_channel = channel, note_pitch = p,
               note_time = note_start_time st, note_duration = accumulated_duration st,
               note_volume = current_velocity st\<rparr>"
    from assms have "tiles 0 (added_notes (midi st)) (note_start_time st)"
      by (simp add: seq_inv_def)
    then have "tiles 0 (added_notes (midi st) @ [?n]) (note_start_time st + note_duration ?n)"
      by (rule tiles_snoc) simp
    moreover from assms have "note_start_time st + accumulated_duration st = current_time st"
      by (simp add: seq_inv_def)
    ultimately show ?thesis using Some by (simp add: write_note_def addNote_def)
  qed
  show "\<forall>n \<in> set (added_notes (midi (write_note st))). whole_steps (note_duration n)"
    using assms by (auto simp: seq_inv_def write_note_def addNote_def split: option.splits)
qed

lemma loop_body_inv:
  assumes "seq_inv st"
  shows "seq_inv (loop_body st c)"
proof -
  obtain x y h s v where c: "c = (x, y, h, s, v)" by (cases c)
  show ?thesis
  proof (cases "case prev_hsv st of None \<Rightarrow> True
                | Some p \<Rightarrow> \<not> colors_are_close (h, s, v) p 15 15 15")
    case True
    from write_note_inv [OF assms] whole_steps_first show ?thesis
      unfolding c loop_body_start [OF True] seq_inv_def by simp
  next
    case False
    then obtain p where p: "prev_hsv st = Some p" "colors_are_close (h, s, v) p 15 15 15"
      by (auto split: option.splits)
    from assms p(1) obtain cp where cp: "current_pitch st = Some cp"
      by (cases "current_pitch st") (auto simp: seq_inv_def)
    with assms have "whole_steps (accumulated_duration st)"
      by (simp add: seq_inv_def)
    then have "whole_steps (accumulated_duration st + eighth_note)"
      by (rule whole_steps_next)
    with assms cp show ?thesis
      unfolding c loop_body_extend [OF p] seq_inv_def by simp
  qed
qed

lemma color_loop_inv: "seq_inv st \<Longrightarrow> seq_inv (color_loop st cs)"
  by (induction cs arbitrary: st) (simp_all add: loop_body_inv)

lemma init_state_inv: "seq_inv (init_state bpm)"
  by (simp add: seq_inv_def init_state_def addTempo_def addTrackName_def new_MIDIFile_def)

lemma loop_body_time: "current_time (loop_body st c) = current_time st + eighth_note"
  by (cases c) (simp add: loop_body_def write_note_fields split: prod.splits)

lemma color_loop_time:
  "current_time (color_loop st cs) = current_time st + of_nat (length cs) * eighth_note"
  by (induction cs arbitrary: st) (simp_all add: loop_body_time algebra_simps)

lemma note_events_Some:
  "color_data \<noteq> [] \<Longrightarrow>
     note_events color_data bpm = added_notes (midi (write_note (color_loop (init_state bpm) color_data)))"
  by (simp add: note_events_def sequence_colors_def)

lemma note_events_tiles:
  assumes "color_data \<noteq> []"
  shows "tiles 0 (note_events color_data bpm) (of_nat (length color_data) * eighth_note)"
proof -
  let ?st = "color_loop (init_state bpm) color_data"
  have "seq_inv ?st" by (rule color_loop_inv) (rule init_state_inv)
  then have "tiles 0 (added_notes (midi (write_note ?st))) (current_time ?st)"
    by (rule write_note_inv)
  moreover have "current_time ?st = of_nat (length color_data) * eighth_note"
    by (simp add: color_loop_time init_state_def)
  ultimately show ?thesis using assms by (simp add: note_events_Some)
qed

lemma note_events_whole_steps:
  "\<forall>n \<in> set (note_events color_data bpm). whole_steps (note_duration n)"
proof (cases "color_data = []")
  case True
  then show ?thesis by (simp add: note_events_def sequence_colors_def)
next
  case False
  let ?st = "color_loop (init_state bpm) color_data"
  have "seq_inv ?st" by (rule color_loop_inv) (rule init_state_inv)
  then have "\<forall>n \<in> set (added_notes (midi (write_note ?st))). whole_steps (note_duration n)"
    by (rule write_note_inv)
  with False show ?thesis by (simp add: note_events_Some)
qed

lemma tiles_sum: "tiles t ns e \<Longrightarrow> sum_list (map note_duration ns) = e - t"
  by (induction ns arbitrary: t) auto

lemma tiles_nth:
  "tiles t ns e \<Longrightarrow> Suc i < length ns \<Longrightarrow>
     note_time (ns ! i) + note_duration (ns ! i) = note_time (ns ! Suc i)"
proof (induction ns arbitrary: t i)
  case Nil
  then show ?case by simp
next
  case (Cons n ns)
  show ?case
  proof (cases i)
    case 0
    with Cons.prems show ?thesis by (cases ns) auto
  next
    case (Suc j)
    with Cons.prems have "tiles (t + note_duration n) ns e" and "Suc j < length ns"
      by auto
    then have "note_time (ns ! j) + note_duration (ns ! j) = note_time (ns ! Suc j)"
      by (rule Cons.IH)
    with Suc show ?thesis by simp
  qed
qed

lemma tiles_sorted:
  "tiles t ns e \<Longrightarrow> \<forall>n \<in> set ns. 0 \<le> note_duration n \<Longrightarrow>
     sorted (map note_time ns) \<and> (\<forall>n \<in> set ns. t \<le> note_time n)"
proof (induction ns arbitrary: t)
  case Nil
  then show ?case by simp
next
  case (Cons n ns)
  from Cons.prems have t: "note_time n = t" and rest: "tiles (t + note_duration n) ns e"
    and nonneg: "0 \<le> note_duration n" "\<forall>m \<in> set ns. 0 \<le> note_duration m"
    by auto
  from Cons.IH [OF rest nonneg(2)]
  have "sorted (map note_time ns)" and "\<forall>m \<in> set ns. t + note_duration n \<le> note_time m"
    by auto
  with t nonneg(1) show ?case by fastforce
qed

lemma whole_steps_pos: "whole_steps d \<Longrightarrow> 0 < d"
  by (auto simp: whole_steps_def eighth_note_def)


section \<open>The sequencer: the properties claimed\<close>

text \<open>The merging scenario of the specification, traced iteration by iteration.\<close>

lemma merging_scenario:
  "note_events [(x1, y1, 10, 50, 50), (x2, y2, 12, 52, 51), (x3, y3, 200, 50, 50)] bpm =
     [\<lparr>note_track = 0, note_channel = 0, note_pitch = 63, note_time = 0,
       note_duration = 2 * eighth_note, note_volume = Some 73\<rparr>,
      \<lparr>note_track = 0, note_channel = 0, note_pitch = 69, note_time = 2 * eighth_note,
       note_duration = eighth_note, note_volume = Some 73\<rparr>]"
proof -
  let ?s0 = "init_state bpm"
  let ?s1 = "loop_body ?s0 (x1, y1, 10, 50, 50)"
  let ?s2 = "loop_body ?s1 (x2, y2, 12, 52, 51)"
  let ?s3 = "loop_body ?s2 (x3, y3, 200, 50, 50)"
  have s1: "?s1 = ?s0\<lparr>note_start_time := 0, current_pitch := Some 63,
      current_velocity := Some 73, accumulated_duration := eighth_note,
      prev_hsv := Some (10, 50, 50), current_time := eighth_note\<rparr>"
    by (simp add: loop_body_start hsv_to_midi_params_examples write_note_def init_state_def)
  have s2: "?s2 = ?s0\<lparr>note_start_time := 0, current_pitch := Some 63,
      current_velocity := Some 73, accumulated_duration := 2 * eighth_note,
      prev_hsv := Some (12, 52, 51), current_time := 2 * eighth_note\<rparr>"
    by (simp add: s1 loop_body_extend [where p = "(10, 50, 50)"] colors_are_close_examples)
  have s3: "?s3 = ?s0\<lparr>midi := addNote (midi ?s0) track channel 63 0 (2 * eighth_note) (Some 73),
      note_start_time := 2 * eighth_note, current_pitch := Some 69,
      current_velocity := Some 73, accumulated_duration := eighth_note,
      prev_hsv := Some (200, 50, 50), current_time := 3 * eighth_note\<rparr>"
    by (simp add: s2 loop_body_start colors_are_close_examples hsv_to_midi_params_examples
        write_note_def)
  show ?thesis
    unfolding note_events_def sequence_colors_def color_loop.simps s3
    by (simp add: write_note_def addNote_def init_state_def
        addTempo_def addTrackName_def new_MIDIFile_def track_def channel_def)
qed

text \<open>
  C1. When a previous colour exists and the current sample is close to it (default
  thresholds), the iteration adds exactly one step of 0.5 beats to the duration of the
  note in progress and leaves its pitch, velocity and start time as they were, writing
  no note; the pitch and velocity mapped from the current sample are not used. And the
  samples \<open>(10,50,50)\<close>, \<open>(12,52,51)\<close>, \<open>(200,50,50)\<close>, at any pixel positions, give
  exactly two note events: the first lasts two steps, with the pitch and velocity of
  the first sample, the second one step.
\<close>

theorem merge_extends_note:
  assumes "prev_hsv st = Some p" and "colors_are_close (h, s, v) p 15 15 15"
  shows "accumulated_duration (loop_body st (x, y, h, s, v)) = accumulated_duration st + eighth_note
       \<and> eighth_note = 1 / 2
       \<and> current_pitch (loop_body st (x, y, h, s, v)) = current_pitch st
       \<and> current_velocity (loop_body st (x, y, h, s, v)) = current_velocity st
       \<and> note_start_time (loop_body st (x, y, h, s, v)) = note_start_time st
       \<and> midi (loop_body st (x, y, h, s, v)) = midi st
       \<and> note_events [(x1, y1, 10, 50, 50), (x2, y2, 12, 52, 51), (x3, y3, 200, 50, 50)] bpm =
           [\<lparr>note_track = 0, note_channel = 0, note_pitch = 63, note_time = 0,
             note_duration = 2 * eighth_note, note_volume = Some 73\<rparr>,
            \<lparr>note_track = 0, note_channel = 0, note_pitch = 69, note_time = 2 * eighth_note,
             note_duration = eighth_note, note_volume = Some 73\<rparr>]"
  by (simp add: loop_body_extend [OF assms] merging_scenario) (simp add: eighth_note_def)

theorem merge_extends_note_witness:
  "prev_hsv (loop_body (init_state 120) (0, 0, 10, 50, 50)) = Some (10, 50, 50)
   \<and> colors_are_close (12, 52, 51) (10, 50, 50) 15 15 15
   \<and> accumulated_duration (loop_body (init_state 120) (0, 0, 10, 50, 50)) = 1 / 2
   \<and> accumulated_duration
        (loop_body (loop_body (init_state 120) (0, 0, 10, 50, 50)) (0, 1, 12, 52, 51)) = 1
   \<and> current_pitch
        (loop_body (loop_body (init_state 120) (0, 0, 10, 50, 50)) (0, 1, 12, 52, 51)) = Some 63
   \<and> current_velocity
        (loop_body (loop_body (init_state 120) (0, 0, 10, 50, 50)) (0, 1, 12, 52, 51)) = Some 73"
proof -
  let ?st = "loop_body (init_state 120) (0, 0, 10, 50, 50)"
  have first: "?st = (init_state 120)\<lparr>note_start_time := 0, current_pitch := Some 63,
      current_velocity := Some 73, accumulated_duration := eighth_note,
      prev_hsv := Some (10, 50, 50), current_time := eighth_note\<rparr>"
    by (simp add: loop_body_start hsv_to_midi_params_examples write_note_def init_state_def)
  have h1: "prev_hsv ?st = Some (10, 50, 50)"
    by (simp add: first)
  have h2: "colors_are_close (12, 52, 51) (10, 50, 50) 15 15 15"
    by (rule colors_are_close_examples)
  have before: "accumulated_duration ?st = 1 / 2" "current_pitch ?st = Some 63"
    "current_velocity ?st = Some 73"
    by (simp_all add: first eighth_note_def)
  from merge_extends_note [OF h1 h2, of 0 1] before h1 h2 show ?thesis
    by (simp add: eighth_note_def)
qed

text \<open>
  C2. For every sample sequence the emitted note events are contiguous and do not
  overlap (each note ends where the next one starts), their start times are
  non-decreasing in emission order, and every duration is a whole number, at least one,
  of steps of 0.5 beats.
\<close>

theorem note_events_contiguous:
  "(\<forall>i. Suc i < length (note_events color_data bpm) \<longrightarrow>
        note_time (note_events color_data bpm ! i) + note_duration (note_events color_data bpm ! i)
          = note_time (note_events color_data bpm ! Suc i))
   \<and> (\<forall>i j. i \<le> j \<and> j < length (note_events color_data bpm) \<longrightarrow>
        note_time (note_events color_data bpm ! i) \<le> note_time (note_events color_data bpm ! j))
   \<and> (\<forall>n \<in> set (note_events color_data bpm).
        \<exists>k::nat. 1 \<le> k \<and> note_duration n = of_nat k * eighth_note)
   \<and> eighth_note = 1 / 2"
proof (cases "color_data = []")
  case True
  then show ?thesis
    by (simp add: note_events_def sequence_colors_def eighth_note_def)
next
  case False
  let ?ns = "note_events color_data bpm"
  have tiled: "tiles 0 ?ns (of_nat (length color_data) * eighth_note)"
    using False by (rule note_events_tiles)
  have steps: "\<forall>n \<in> set ?ns. whole_steps (note_duration n)"
    by (rule note_events_whole_steps)
  have contiguous: "\<forall>i. Suc i < length ?ns \<longrightarrow>
      note_time (?ns ! i) + note_duration (?ns ! i) = note_time (?ns ! Suc i)"
    using tiled by (blast intro: tiles_nth)
  from steps have "\<forall>n \<in> set ?ns. 0 \<le> note_duration n"
    by (blast intro: less_imp_le whole_steps_pos)
  with tiled have "sorted (map note_time ?ns)"
    by (blast dest: tiles_sorted)
  then have monotone: "\<forall>i j. i \<le> j \<and> j < length ?ns \<longrightarrow>
      note_time (?ns ! i) \<le> note_time (?ns ! j)"
    by (simp add: sorted_iff_nth_mono)
  from steps have multiples: "\<forall>n \<in> set ?ns. \<exists>k::nat. 1 \<le> k \<and> note_duration n = of_nat k * eighth_note"
    by (simp add: whole_steps_def)
  from contiguous monotone multiples show ?thesis
    by (simp add: eighth_note_def)
qed

theorem note_events_contiguous_witness:
  "Suc 0 < length (note_events [(0, 0, 10, 50, 50), (0, 1, 12, 52, 51), (0, 2, 200, 50, 50)] 120)
   \<and> note_time (note_events [(0, 0, 10, 50, 50), (0, 1, 12, 52, 51), (0, 2, 200, 50, 50)] 120 ! 0)
       + note_duration (note_events [(0, 0, 10, 50, 50), (0, 1, 12, 52, 51), (0, 2, 200, 50, 50)] 120 ! 0)
     = note_time (note_events [(0, 0, 10, 50, 50), (0, 1, 12, 52, 51), (0, 2, 200, 50, 50)] 120 ! Suc 0)
   \<and> note_time (note_events [(0, 0, 10, 50, 50), (0, 1, 12, 52, 51), (0, 2, 200, 50, 50)] 120 ! 0)
     \<le> note_time (note_events [(0, 0, 10, 50, 50), (0, 1, 12, 52, 51), (0, 2, 200, 50, 50)] 120 ! Suc 0)
   \<and> (\<exists>k::nat. 1 \<le> k \<and>
        note_duration (note_events [(0, 0, 10, 50, 50), (0, 1, 12, 52, 51), (0, 2, 200, 50, 50)] 120 ! 0)
          = of_nat k * eighth_note)"
proof -
  let ?ns = "note_events [(0, 0, 10, 50, 50), (0, 1, 12, 52, 51), (0, 2, 200, 50, 50)] 120"
  have len: "Suc 0 < length ?ns" by (simp add: merging_scenario)
  then have "0 < length ?ns" by (rule Suc_lessD)
  then have mem: "?ns ! 0 \<in> set ?ns" by (rule nth_mem)
  have ord: "(0::nat) \<le> Suc 0 \<and> Suc 0 < length ?ns" using len by simp
  from note_events_contiguous [of "[(0, 0, 10, 50, 50), (0, 1, 12, 52, 51), (0, 2, 200, 50, 50)]" 120]
    len mem ord
  show ?thesis by blast
qed

text \<open>
  C3. For every non-empty sample sequence of length N the durations of the emitted
  note events add up to N steps of 0.5 beats.
\<close>

theorem note_events_total_duration:
  assumes "color_data \<noteq> []"
  shows "sum_list (map note_duration (note_events color_data bpm))
           = of_nat (length color_data) * eighth_note
       \<and> eighth_note = 1 / 2"
proof -
  from assms have "tiles 0 (note_events color_data bpm) (of_nat (length color_data) * eighth_note)"
    by (rule note_events_tiles)
  then have "sum_list (map note_duration (note_events color_data bpm))
               = of_nat (length color_data) * eighth_note - 0"
    by (rule tiles_sum)
  then show ?thesis by (simp add: eighth_note_def)
qed

theorem note_events_total_duration_witness:
  "[(0, 0, 10, 50, 50), (0, 1, 12, 52, 51), (0, 2, 200, 50, 50)] \<noteq> ([] :: sample list)
   \<and> sum_list (map note_duration
         (note_events [(0, 0, 10, 50, 50), (0, 1, 12, 52, 51), (0, 2, 200, 50, 50)] 120)) = 3 / 2"
  using note_events_total_duration
    [of "[(0, 0, 10, 50, 50), (0, 1, 12, 52, 51), (0, 2, 200, 50, 50)]" 120]
  by simp

lemma loop_body_pitch: "seq_inv st \<Longrightarrow> current_pitch (loop_body st c) \<noteq> None"
proof -
  assume inv: "seq_inv st"
  obtain x y h s v where c: "c = (x, y, h, s, v)" by (cases c)
  show ?thesis
  proof (cases "case prev_hsv st of None \<Rightarrow> True
                | Some p \<Rightarrow> \<not> colors_are_close (h, s, v) p 15 15 15")
    case True
    show ?thesis unfolding c loop_body_start [OF True] by simp
  next
    case False
    then obtain p where p: "prev_hsv st = Some p" "colors_are_close (h, s, v) p 15 15 15"
      by (auto split: option.splits)
    from inv p(1) have "current_pitch st \<noteq> None"
      by (auto simp: seq_inv_def split: option.splits)
    then show ?thesis unfolding c loop_body_extend [OF p] by simp
  qed
qed

lemma color_loop_pitch:
  "seq_inv st \<Longrightarrow> current_pitch st \<noteq> None \<Longrightarrow> current_pitch (color_loop st cs) \<noteq> None"
proof (induction cs arbitrary: st)
  case Nil
  then show ?case by simp
next
  case (Cons c cs)
  from Cons.prems(1) have "seq_inv (loop_body st c)"
    by (rule loop_body_inv)
  moreover from Cons.prems(1) have "current_pitch (loop_body st c) \<noteq> None"
    by (rule loop_body_pitch)
  ultimately have "current_pitch (color_loop (loop_body st c) cs) \<noteq> None"
    by (rule Cons.IH)
  then show ?case by simp
qed

lemma write_note_adds:
  "current_pitch st \<noteq> None \<Longrightarrow>
     length (added_notes (midi (write_note st))) = Suc (length (added_notes (midi st)))"
  by (auto simp: write_note_def addNote_def)

text \<open>
  C8. On an empty sample sequence the sequencer makes no MIDI object, emits no note
  event and writes no file; on every sample sequence of length at least one it emits
  at least one note event.
\<close>

theorem empty_and_flush:
  "sequence_colors [] bpm = None
   \<and> note_events [] bpm = []
   \<and> create_midi_from_colors writable [] output_path bpm = No_color_data
   \<and> (color_data \<noteq> [] \<longrightarrow>
        (\<exists>m. sequence_colors color_data bpm = Some m \<and> added_notes m \<noteq> [])
        \<and> note_events color_data bpm \<noteq> []
        \<and> create_midi_from_colors writable color_data output_path bpm \<noteq> No_color_data)"
proof -
  have empty: "sequence_colors [] bpm = None" "note_events [] bpm = []"
    "create_midi_from_colors writable [] output_path bpm = No_color_data"
    by (simp_all add: sequence_colors_def note_events_def create_midi_from_colors_def)
  have nonempty: "(\<exists>m. sequence_colors color_data bpm = Some m \<and> added_notes m \<noteq> [])
      \<and> note_events color_data bpm \<noteq> []
      \<and> create_midi_from_colors writable color_data output_path bpm \<noteq> No_color_data"
    if ne: "color_data \<noteq> []"
  proof -
    from ne obtain c cs where cd: "color_data = c # cs" by (cases color_data) auto
    let ?st = "color_loop (init_state bpm) color_data"
    have "seq_inv (loop_body (init_state bpm) c)"
      and "current_pitch (loop_body (init_state bpm) c) \<noteq> None"
      by (simp_all add: loop_body_inv loop_body_pitch init_state_inv)
    then have "current_pitch ?st \<noteq> None"
      unfolding cd color_loop.simps by (rule color_loop_pitch)
    then have "length (added_notes (midi (write_note ?st))) = Suc (length (added_notes (midi ?st)))"
      by (rule write_note_adds)
    then have "added_notes (midi (write_note ?st)) \<noteq> []"
      by auto
    with ne show ?thesis
      by (simp add: sequence_colors_def note_events_def create_midi_from_colors_def)
  qed
  from empty nonempty show ?thesis by blast
qed

theorem empty_and_flush_witness:
  "[(0, 0, 10, 50, 50)] \<noteq> ([] :: sample list)
   \<and> note_events [(0, 0, 10, 50, 50)] 120 \<noteq> []
   \<and> note_events [(0, 0, 10, 50, 50)] 120 =
       [\<lparr>note_track = 0, note_channel = 0, note_pitch = 63, note_time = 0,
         note_duration = 1 / 2, note_volume = Some 73\<rparr>]
   \<and> create_midi_from_colors (\<lambda>p. True) [(0, 0, 10, 50, 50)] ''out.mid'' 120 \<noteq> No_color_data"
proof -
  have ne: "[(0, 0, 10, 50, 50)] \<noteq> ([] :: sample list)" by simp
  have ev: "note_events [(0, 0, 10, 50, 50)] 120 =
       [\<lparr>note_track = 0, note_channel = 0, note_pitch = 63, note_time = 0,
         note_duration = 1 / 2, note_volume = Some 73\<rparr>]"
    by (simp add: note_events_def sequence_colors_def loop_body_start
        hsv_to_midi_params_examples write_note_def init_state_def addNote_def addTempo_def
        addTrackName_def new_MIDIFile_def track_def channel_def eighth_note_def)
  from empty_and_flush [of 120 "\<lambda>p. True" "''out.mid''" "[(0, 0, 10, 50, 50)]"] ne ev
  show ?thesis by blast
qed

lemma hue_far_not_close:
  "hue_far (px, py, ph, ps, pv) (x, y, h, s, v) \<Longrightarrow>
     \<not> colors_are_close (h, s, v) (ph, ps, pv) 15 15 15"
  by (simp add: hue_far_def colors_are_close_def)

lemma color_loop_no_merge:
  assumes "current_pitch st \<noteq> None"
    and "prev_hsv st = Some (ph, ps, pv)"
    and "successively hue_far ((px, py, ph, ps, pv) # cs)"
  shows "length (added_notes (midi (write_note (color_loop st cs))))
           = Suc (length (added_notes (midi st)) + length cs)"
  using assms
proof (induction cs arbitrary: st px py ph ps pv)
  case Nil
  then show ?case by (simp add: write_note_adds)
next
  case (Cons c cs)
  obtain x y h s v where c: "c = (x, y, h, s, v)" by (cases c)
  from Cons.prems(3) have far: "hue_far (px, py, ph, ps, pv) (x, y, h, s, v)"
    and rest: "successively hue_far ((x, y, h, s, v) # cs)"
    by (simp_all add: c)
  from far have "\<not> colors_are_close (h, s, v) (ph, ps, pv) 15 15 15"
    by (rule hue_far_not_close)
  with Cons.prems(2)
  have start: "case prev_hsv st of None \<Rightarrow> True
               | Some p \<Rightarrow> \<not> colors_are_close (h, s, v) p 15 15 15"
    by simp
  let ?st' = "loop_body st (x, y, h, s, v)"
  have pitch: "current_pitch ?st' \<noteq> None"
    and prev: "prev_hsv ?st' = Some (h, s, v)"
    and written: "midi ?st' = midi (write_note st)"
    unfolding loop_body_start [OF start] by simp_all
  from pitch prev rest
  have "length (added_notes (midi (write_note (color_loop ?st' cs))))
          = Suc (length (added_notes (midi ?st')) + length cs)"
    by (rule Cons.IH)
  moreover from Cons.prems(1)
  have "length (added_notes (midi ?st')) = Suc (length (added_notes (midi st)))"
    unfolding written by (rule write_note_adds)
  ultimately show ?case by (simp add: c)
qed

lemma two_close_one_note:
  assumes "colors_are_close (hb, sb, vb) (ha, sa, va) 15 15 15"
  shows "length (note_events [(xa, ya, ha, sa, va), (xb, yb, hb, sb, vb)] bpm) = 1"
proof -
  let ?s0 = "init_state bpm"
  let ?s1 = "loop_body ?s0 (xa, ya, ha, sa, va)"
  let ?s2 = "loop_body ?s1 (xb, yb, hb, sb, vb)"
  have start: "case prev_hsv ?s0 of None \<Rightarrow> True
               | Some p \<Rightarrow> \<not> colors_are_close (ha, sa, va) p 15 15 15"
    by (simp add: init_state_def)
  have first: "prev_hsv ?s1 = Some (ha, sa, va)" "current_pitch ?s1 \<noteq> None"
    "added_notes (midi ?s1) = []"
    unfolding loop_body_start [OF start]
    by (simp_all add: write_note_def init_state_def addTempo_def addTrackName_def
        new_MIDIFile_def)
  have second: "current_pitch ?s2 \<noteq> None" "added_notes (midi ?s2) = []"
    unfolding loop_body_extend [OF first(1) assms]
    using first by simp_all
  from second(1)
  have "length (added_notes (midi (write_note ?s2))) = Suc (length (added_notes (midi ?s2)))"
    by (rule write_note_adds)
  then show ?thesis
    by (simp add: second note_events_def sequence_colors_def)
qed

lemma hue_diff_rounded:
  "hue_diff h h' =
     (if \<bar>round_double (h - h')\<bar> > 180
      then round_double (360 - \<bar>round_double (h - h')\<bar>)
      else \<bar>round_double (h - h')\<bar>)"
  by (simp add: hue_diff_def Let_def fl_sub_def)

text \<open>
  C9, as stated: when the hues of the samples differ pairwise by more than 15 degrees,
  no two samples are merged and the sequencer emits one note event for each sample.
  This fails where the difference exceeds 15 by less than the rounding of the
  subtraction: the hues 20 and \<open>4.999999999999999\<close> (the double
  \<open>5629499534213119 / 2^50\<close>) differ by \<open>15 + 2^-50\<close>, the source computes the
  difference 15, merges the two samples and emits one note event for them.
\<close>

theorem no_merge_count_counterexample:
  "(15 :: real) < \<bar>20 - 5629499534213119 / 1125899906842624\<bar>
   \<and> \<bar>20 - 5629499534213119 / 1125899906842624\<bar> \<le> (180 :: real)
   \<and> hue_diff (5629499534213119 / 1125899906842624) 20 = 15
   \<and> length (note_events
        [(0, 0, 20, 50, 50), (0, 1, 5629499534213119 / 1125899906842624, 50, 50)] 120) = 1
   \<and> length [(0, 0, 20, 50, 50), (0, 1, 5629499534213119 / 1125899906842624, 50, 50) :: sample]
       = 2"
proof -
  have diff: "hue_diff (5629499534213119 / 1125899906842624) 20 = 15"
    by code_simp
  have "colors_are_close (5629499534213119 / 1125899906842624, 50, 50) (20, 50, 50) 15 15 15"
    by code_simp
  then have "length (note_events
        [(0, 0, 20, 50, 50), (0, 1, 5629499534213119 / 1125899906842624, 50, 50)] 120) = 1"
    by (rule two_close_one_note)
  with diff show ?thesis by simp
qed

text \<open>
  C9, amended: when the hues of the samples differ pairwise by more than 15 degrees,
  the difference being \<open>|h1-h2|\<close>, or \<open>360 - |h1-h2|\<close> when that exceeds 180, with each
  subtraction rounded to the nearest double, no two samples are merged and the
  sequencer emits exactly one note event for each sample.
\<close>

theorem no_merge_count_rounded:
  assumes "\<forall>i j. i < length color_data \<and> j < length color_data \<and> i \<noteq> j \<longrightarrow>
      (case color_data ! i of (x, y, h, s, v) \<Rightarrow>
       case color_data ! j of (x', y', h', s', v') \<Rightarrow>
         15 < (if \<bar>round_double (h - h')\<bar> > 180
               then round_double (360 - \<bar>round_double (h - h')\<bar>)
               else \<bar>round_double (h - h')\<bar>))"
  shows "length (note_events color_data bpm) = length color_data"
proof (cases color_data)
  case Nil
  then show ?thesis by (simp add: note_events_def sequence_colors_def)
next
  case (Cons c cs)
  obtain x y h s v where c: "c = (x, y, h, s, v)" by (cases c)
  have "\<forall>i j. i < j \<longrightarrow> j < length color_data \<longrightarrow> hue_far (color_data ! i) (color_data ! j)"
  proof (intro allI impI)
    fix i j
    assume "i < j" and "j < length color_data"
    then have "j < length color_data \<and> i < length color_data \<and> j \<noteq> i" by simp
    then have "case color_data ! j of (x, y, h, s, v) \<Rightarrow>
          case color_data ! i of (x', y', h', s', v') \<Rightarrow>
            15 < (if \<bar>round_double (h - h')\<bar> > 180
                  then round_double (360 - \<bar>round_double (h - h')\<bar>)
                  else \<bar>round_double (h - h')\<bar>)"
      by (rule assms [rule_format])
    then show "hue_far (color_data ! i) (color_data ! j)"
      by (cases "color_data ! i"; cases "color_data ! j")
        (simp add: hue_far_def hue_diff_rounded)
  qed
  then have "sorted_wrt hue_far color_data"
    by (simp add: sorted_wrt_iff_nth_less)
  then have chain: "successively hue_far ((x, y, h, s, v) # cs)"
    unfolding Cons c by (rule successively_if_sorted_wrt)
  let ?st = "loop_body (init_state bpm) (x, y, h, s, v)"
  have start: "case prev_hsv (init_state bpm) of None \<Rightarrow> True
               | Some p \<Rightarrow> \<not> colors_are_close (h, s, v) p 15 15 15"
    by (simp add: init_state_def)
  have pitch: "current_pitch ?st \<noteq> None"
    and prev: "prev_hsv ?st = Some (h, s, v)"
    and written: "added_notes (midi ?st) = []"
    unfolding loop_body_start [OF start]
    by (simp_all add: write_note_def init_state_def addTempo_def addTrackName_def
        new_MIDIFile_def)
  from pitch prev chain
  have "length (added_notes (midi (write_note (color_loop ?st cs))))
          = Suc (length (added_notes (midi ?st)) + length cs)"
    by (rule color_loop_no_merge)
  then show ?thesis
    by (simp add: written Cons c note_events_def sequence_colors_def)
qed

theorem no_merge_count_rounded_witness:
  "round_double 30 = 30 \<and> round_double 160 = 160 \<and> round_double 190 = 190
   \<and> round_double 170 = 170
   \<and> length (note_events [(0, 0, 10, 50, 50), (0, 1, 40, 50, 50), (0, 2, 200, 50, 50)] 120) = 3"
proof -
  let ?cd = "[(0, 0, 10, 50, 50), (0, 1, 40, 50, 50), (0, 2, 200, 50, 50) :: sample]"
  have rd: "round_double 30 = 30" "round_double 160 = 160" "round_double 190 = 190"
    "round_double 170 = 170"
    by code_simp+
  have far: "\<forall>i j. i < length ?cd \<and> j < length ?cd \<and> i \<noteq> j \<longrightarrow>
      (case ?cd ! i of (x, y, h, s, v) \<Rightarrow>
       case ?cd ! j of (x', y', h', s', v') \<Rightarrow>
         15 < (if \<bar>round_double (h - h')\<bar> > 180
               then round_double (360 - \<bar>round_double (h - h')\<bar>)
               else \<bar>round_double (h - h')\<bar>))"
    by (auto simp: less_Suc_eq round_double_minus rd)
  from no_merge_count_rounded [OF far, of 120] rd show ?thesis
    by simp
qed

text \<open>
  The wrap-around matters for C9: hues 359 and 1 differ by 358 as numbers, but the
  predicate computes 2, and the two samples are merged into one note.
\<close>

lemma wraparound_merges:
  "length (note_events [(0, 0, 359, 50, 50), (0, 1, 1, 50, 50)] 120) = 1"
proof -
  have "colors_are_close (1, 50, 50) (359, 50, 50) 15 15 15"
    by code_simp
  then show ?thesis by (rule two_close_one_note)
qed

end
